theory Spec2Isabelle
  imports
    Complex_Main
    "HOL-Library.Multiset"
    "HOL-Library.Char_ord"
    "HOL-Library.List_Lexorder"
    "HOL-Library.Product_Lexorder"
begin

section \<open>The table model\<close>

text \<open>
  \<^verbatim>\<open>behavior_trends_analysis.py\<close> works on pandas DataFrames with the columns
  \<^verbatim>\<open>CustomerID\<close>, \<^verbatim>\<open>Description\<close>, \<^verbatim>\<open>Quantity\<close>, \<^verbatim>\<open>UnitPrice\<close> and \<^verbatim>\<open>InvoiceDate\<close>.
  A row of such a table is a record of five cells. Every cell may be missing (pandas' NaN),
  which is \<open>None\<close>. Quantities are int64 integers. A unit price is a float64 number; the model
  holds its exact value, a rational. What float64 arithmetic makes of such values is said
  below, with the operations that compute with them.

  An \<^verbatim>\<open>InvoiceDate\<close> cell records what \<^verbatim>\<open>pd.to_datetime\<close> makes of it: a missing value
  (converted to NaT without any error), a value that converts to a timestamp, or a value the
  parser rejects. The parser itself belongs to pandas. Only the calendar date of a timestamp
  is kept; \<^verbatim>\<open>to_period('Q')\<close> ignores the clock time.
\<close>

datatype timestamp = Timestamp (year: int) (month: nat) (day: nat)

datatype datecell = Missing | Stamp timestamp | Unparsable string

record txn =
  CustomerID :: "int option"
  Description :: "string option"
  Quantity :: "int option"
  UnitPrice :: "rat option"
  InvoiceDate :: datecell

text \<open>
  A quarter is a year and a number from 1 to 4, ordered by year first
  (the lexicographic order on pairs).
\<close>

type_synonym period = "int \<times> nat"

text \<open>
  A DataFrame is a mutable object: \<^verbatim>\<open>df['Total'] = ...\<close> adds the column \<^verbatim>\<open>Total\<close> to the
  object the caller passed in, or overwrites it. Besides its rows, a frame therefore has the
  two columns that the program may add; \<open>None\<close> says that the frame has no such column.
\<close>

record frame =
  rows :: "txn list"
  Total :: "rat option list option"
  Quarter :: "period option list option"

datatype error = DateParseError

section \<open>The pandas operations the program calls\<close>

text \<open>\<^verbatim>\<open>df[name]\<close>: one column of the frame, as the list of its cells in row order.\<close>

definition column :: "(txn \<Rightarrow> 'a) \<Rightarrow> frame \<Rightarrow> 'a list" where
  "column f df = map f (rows df)"

text \<open>\<^verbatim>\<open>series.notna()\<close>, \<^verbatim>\<open>series > c\<close> (false on a missing cell) and \<^verbatim>\<open>mask1 & mask2\<close>.\<close>

definition notna :: "'a option list \<Rightarrow> bool list" where
  "notna col = map (\<lambda>v. v \<noteq> None) col"

definition gt :: "('a::linorder) option list \<Rightarrow> 'a \<Rightarrow> bool list" where
  "gt col c = map (\<lambda>v. case v of None \<Rightarrow> False | Some x \<Rightarrow> c < x) col"

definition mask_and :: "bool list \<Rightarrow> bool list \<Rightarrow> bool list" where
  "mask_and m1 m2 = map2 (\<and>) m1 m2"

text \<open>Boolean indexing \<^verbatim>\<open>xs[mask]\<close>: the entries at which the mask is true, in order.\<close>

definition bool_index :: "bool list \<Rightarrow> 'a list \<Rightarrow> 'a list" where
  "bool_index msk xs = map snd (filter fst (zip msk xs))"

text \<open>\<^verbatim>\<open>df[mask]\<close> is a new frame: every column of \<open>df\<close>, each indexed by the mask.\<close>

definition loc :: "bool list \<Rightarrow> frame \<Rightarrow> frame" where
  "loc msk df =
     \<lparr>rows = bool_index msk (rows df),
      Total = map_option (bool_index msk) (Total df),
      Quarter = map_option (bool_index msk) (Quarter df)\<rparr>"

text \<open>\<^verbatim>\<open>df.dropna(subset=[name])\<close>: a new frame without the rows whose cell \<open>name\<close> is missing.\<close>

definition dropna :: "(txn \<Rightarrow> 'a option) \<Rightarrow> frame \<Rightarrow> frame" where
  "dropna f df = loc (notna (column f df)) df"

text \<open>The present values of a column: sums and means skip the missing ones.\<close>

definition present :: "'a option list \<Rightarrow> 'a list" where
  "present col = map the (filter (\<lambda>v. v \<noteq> None) col)"

text \<open>
  The sum of an int64 column is an int64 sum: it wraps around silently when it leaves the
  range from \<open>-2^63\<close> to \<open>2^63 - 1\<close>.
\<close>

definition wrap64 :: "int \<Rightarrow> int" where
  "wrap64 n = (n + 2 ^ 63) mod 2 ^ 64 - 2 ^ 63"

definition sum_skipna :: "int option list \<Rightarrow> int" where
  "sum_skipna col = wrap64 (sum_list (present col))"

text \<open>
  An int64 that meets a float64 is converted to float64 first: to itself up to \<open>2^53\<close> in
  absolute value, and beyond that to the nearest number with a 53-bit mantissa, the even
  mantissa when two are equally near. Every int64 converts to an integer. In the definition
  \<open>k\<close> is the number of bits that an int64 beyond \<open>2^53\<close> has more than the mantissa holds.
\<close>

definition float64_of_int :: "int \<Rightarrow> int" where
  "float64_of_int n =
     (if \<bar>n\<bar> \<le> 2 ^ 53 then n
      else let k = length (filter (\<lambda>i. 2 ^ i \<le> \<bar>n\<bar>) [53..<64]);
               m = \<bar>n\<bar> div 2 ^ k;
               r = \<bar>n\<bar> mod 2 ^ k;
               m' = (if 2 ^ k < 2 * r \<or> (2 * r = 2 ^ k \<and> odd m) then m + 1 else m)
           in sgn n * (m' * 2 ^ k))"

text \<open>
  float64 arithmetic rounds. Which number a product, a sum of several numbers or a mean
  comes out as is fixed by IEEE 754 together with the order and the method by which the
  installed pandas adds; neither is in this repository. The functions below take these
  three operations as a parameter: \<open>fmul\<close> is the float64 product, \<open>fsum\<close> the float64 sum of
  the present values of a group, \<open>fmean\<close> their float64 mean. Theorems that hold for every
  \<open>ops\<close> hold for the float64 operations; a theorem that needs a property of them states it.
\<close>

record float64_ops =
  fmul :: "rat \<Rightarrow> rat \<Rightarrow> rat"
  fsum :: "rat list \<Rightarrow> rat"
  fmean :: "rat list \<Rightarrow> rat"

text \<open>
  Arithmetic that does not round. float64 arithmetic agrees with it wherever no result
  needs rounding, as on the example tables below, whose numbers are small integers; they
  are evaluated with it.
\<close>

definition exact_ops :: float64_ops where
  "exact_ops =
     \<lparr>fmul = (\<lambda>x y. x * y),
      fsum = sum_list,
      fmean = (\<lambda>vs. sum_list vs / of_nat (length vs))\<rparr>"

definition sum_float :: "float64_ops \<Rightarrow> rat option list \<Rightarrow> rat" where
  "sum_float ops col = fsum ops (present col)"

definition mean_skipna :: "float64_ops \<Rightarrow> rat option list \<Rightarrow> rat option" where
  "mean_skipna ops col =
     (let vs = present col in if vs = [] then None else Some (fmean ops vs))"

text \<open>
  \<^verbatim>\<open>groupby(key)\<close> with pandas' defaults (\<^verbatim>\<open>sort=True\<close>, \<^verbatim>\<open>dropna=True\<close>): the groups are
  the distinct present keys in ascending order; rows with a missing key are in no group. Each
  group holds the values of its rows in row order, and \<open>agg\<close> turns a group into one value.
\<close>

definition group_keys :: "('k::linorder) option list \<Rightarrow> 'k list" where
  "group_keys ks = sort (remdups (present ks))"

definition group_of :: "'k option list \<Rightarrow> 'v list \<Rightarrow> 'k \<Rightarrow> 'v list" where
  "group_of ks vs k = bool_index (map (\<lambda>x. x = Some k) ks) vs"

definition groupby :: "('k::linorder) option list \<Rightarrow> 'v list \<Rightarrow> ('v list \<Rightarrow> 'r) \<Rightarrow> ('k \<times> 'r) list" where
  "groupby ks vs agg = map (\<lambda>k. (k, agg (group_of ks vs k))) (group_keys ks)"

text \<open>
  \<^verbatim>\<open>series.sort_values(ascending=False)\<close>: the entries of the series in descending order of
  their values. pandas' default sort kind (quicksort) promises no order among equal values,
  and the order it leaves them in can differ from the one of this definition, which keeps
  equal values in the order of the series. The general theorems below use only that the
  result has as many entries as the series and non-increasing values, and that it is a
  function of the series. Only the evaluation of the two tied tables shows an order of ties;
  there both tables have the same grouped series, so that the two results are equal under
  any order of ties.
\<close>

definition sort_values_desc :: "('k \<times> int) list \<Rightarrow> ('k \<times> int) list" where
  "sort_values_desc s = rev (sort_key snd (rev s))"

text \<open>
  \<^verbatim>\<open>series.head(n)\<close> is \<^verbatim>\<open>series.iloc[:n]\<close>: the first \<open>n\<close> entries, and for a negative
  \<open>n\<close> all entries but the last \<open>-n\<close>.
\<close>

definition head :: "int \<Rightarrow> 'a list \<Rightarrow> 'a list" where
  "head n xs = (if 0 \<le> n then take (nat n) xs else take (length xs - nat (- n)) xs)"

text \<open>
  \<^verbatim>\<open>pd.to_datetime(column)\<close> with the default \<^verbatim>\<open>errors='raise'\<close>: the first cell that the
  parser rejects raises; a missing cell becomes NaT (\<open>None\<close>).
\<close>

fun to_datetime :: "datecell list \<Rightarrow> error + timestamp option list" where
  "to_datetime [] = Inr []"
| "to_datetime (Unparsable s # cs) = Inl DateParseError"
| "to_datetime (Missing # cs) =
     (case to_datetime cs of Inl e \<Rightarrow> Inl e | Inr ts \<Rightarrow> Inr (None # ts))"
| "to_datetime (Stamp t # cs) =
     (case to_datetime cs of Inl e \<Rightarrow> Inl e | Inr ts \<Rightarrow> Inr (Some t # ts))"

text \<open>\<^verbatim>\<open>.dt.to_period('Q')\<close> on one timestamp: its year and the quarter of its month.\<close>

definition to_period_Q :: "timestamp \<Rightarrow> period" where
  "to_period_Q t = (year t, (month t - 1) div 3 + 1)"

text \<open>
  The product of a \<^verbatim>\<open>Quantity\<close> cell and a \<^verbatim>\<open>UnitPrice\<close> cell: the quantity is converted to
  float64 and multiplied in float64. The product is missing when one of the cells is.
\<close>

definition mul_na :: "float64_ops \<Rightarrow> int option \<Rightarrow> rat option \<Rightarrow> rat option" where
  "mul_na ops q p =
     (case (q, p) of
        (Some a, Some b) \<Rightarrow> Some (fmul ops (of_int (float64_of_int a)) b)
      | _ \<Rightarrow> None)"

section \<open>The functions of the program\<close>

text \<open>
  \<^verbatim>\<open>filter_data\<close> rebinds its local name \<^verbatim>\<open>df\<close> to the frame that \<^verbatim>\<open>dropna\<close> returns and then to
  the frame that the Boolean indexing returns. Both are new frames; the caller's frame is never
  written to.
\<close>

definition filter_data :: "frame \<Rightarrow> frame" where
  "filter_data df =
     (let df1 = dropna CustomerID df;
          df2 = loc (mask_and (gt (column Quantity df1) 0) (gt (column UnitPrice df1) 0)) df1
      in df2)"

text \<open>
  \<^verbatim>\<open>loyalty_customers\<close>: the size of each \<^verbatim>\<open>CustomerID\<close> group, then the groups whose size is
  at least \<open>min_purchases\<close>. \<^verbatim>\<open>reset_index\<close> makes the key and the count the two columns of the
  result, here the components of a pair.
\<close>

definition loyalty_customers :: "frame \<Rightarrow> int \<Rightarrow> (int \<times> int) list" where
  "loyalty_customers df min_purchases =
     (let customer_purchases = groupby (column CustomerID df) (rows df) (\<lambda>g. int (length g));
          loyal_customers =
            bool_index (map (\<lambda>(c, n). min_purchases \<le> n) customer_purchases) customer_purchases
      in loyal_customers)"

text \<open>
  \<^verbatim>\<open>quarterly_revenue\<close> assigns to \<^verbatim>\<open>df['Total']\<close> and \<^verbatim>\<open>df['Quarter']\<close>, that is, to the frame
  object of its caller. The model returns the outcome of the call together with the frame as
  the call leaves it. The first assignment is done when \<^verbatim>\<open>pd.to_datetime\<close> is evaluated, so a
  date error leaves the frame with the new \<^verbatim>\<open>Total\<close> column.
\<close>

definition quarterly_revenue ::
  "float64_ops \<Rightarrow> frame \<Rightarrow> (error + (period \<times> rat) list) \<times> frame" where
  "quarterly_revenue ops df =
     (let total = map2 (mul_na ops) (column Quantity df) (column UnitPrice df);
          df1 = df\<lparr>Total := Some total\<rparr>
      in case to_datetime (column InvoiceDate df1) of
           Inl e \<Rightarrow> (Inl e, df1)
         | Inr ts \<Rightarrow>
             (let quarter = map (map_option to_period_Q) ts;
                  df2 = df1\<lparr>Quarter := Some quarter\<rparr>;
                  revenue = groupby quarter total (sum_float ops)
              in (Inr revenue, df2)))"

text \<open>
  \<^verbatim>\<open>high_demand_products\<close>: the summed quantity of each \<^verbatim>\<open>Description\<close> group, sorted
  descending, cut by \<^verbatim>\<open>head(top_n)\<close>.
\<close>

definition product_demand :: "frame \<Rightarrow> (string \<times> int) list" where
  "product_demand df =
     sort_values_desc (groupby (column Description df) (column Quantity df) sum_skipna)"

definition high_demand_products :: "frame \<Rightarrow> int \<Rightarrow> (string \<times> int) list" where
  "high_demand_products df top_n = head top_n (product_demand df)"

text \<open>
  \<^verbatim>\<open>purchase_patterns\<close>: the mean quantity and the mean unit price of each \<^verbatim>\<open>Description\<close>
  group. Both means are float64 means; the quantities are converted to float64 for it. A
  mean is missing when the group has no present value.
\<close>

definition purchase_patterns ::
  "float64_ops \<Rightarrow> frame \<Rightarrow> (string \<times> rat option \<times> rat option) list" where
  "purchase_patterns ops df =
     groupby (column Description df) (rows df)
       (\<lambda>g. (mean_skipna ops (map (map_option (of_int \<circ> float64_of_int) \<circ> Quantity) g),
             mean_skipna ops (map UnitPrice g)))"

section \<open>Notions of the specification\<close>

text \<open>A row of a cleaned table: the customer is present, quantity and unit price are positive.\<close>

definition clean_row :: "txn \<Rightarrow> bool" where
  "clean_row r =
     (CustomerID r \<noteq> None
      \<and> (case Quantity r of None \<Rightarrow> False | Some q \<Rightarrow> 0 < q)
      \<and> (case UnitPrice r of None \<Rightarrow> False | Some p \<Rightarrow> 0 < p))"

definition cleaned :: "frame \<Rightarrow> bool" where
  "cleaned df = list_all clean_row (rows df)"

text \<open>
  Every added column of a well-formed frame has one cell per row. The cleaner needs less:
  that no added column is longer than the frame has rows.
\<close>

definition fits :: "frame \<Rightarrow> bool" where
  "fits df =
     ((case Total df of None \<Rightarrow> True | Some c \<Rightarrow> length c \<le> length (rows df))
      \<and> (case Quarter df of None \<Rightarrow> True | Some c \<Rightarrow> length c \<le> length (rows df)))"

text \<open>
  The customers and the products of a table are the present values of its \<^verbatim>\<open>CustomerID\<close> and
  \<^verbatim>\<open>Description\<close> columns. The purchase count of a customer is the number of rows that carry
  its identifier.
\<close>

definition customer_ids :: "frame \<Rightarrow> int set" where
  "customer_ids df = {c. Some c \<in> set (column CustomerID df)}"

definition purchase_count :: "frame \<Rightarrow> int \<Rightarrow> int" where
  "purchase_count df c = int (count_list (column CustomerID df) (Some c))"

definition products :: "frame \<Rightarrow> string set" where
  "products df = {d. Some d \<in> set (column Description df)}"

text \<open>
  The line revenue of a row is quantity times unit price, as an exact number. A row that
  lacks one of the two has none and adds nothing to a sum; a cleaned table has no such row.
\<close>

definition line_revenue :: "txn \<Rightarrow> rat" where
  "line_revenue r =
     (case (Quantity r, UnitPrice r) of (Some q, Some p) \<Rightarrow> of_int q * p | _ \<Rightarrow> 0)"

text \<open>
  The three kinds of invoice timestamp: one that converts to a date (\<open>has_timestamp\<close>), one
  that cannot be parsed (\<open>unparsable\<close>), and a missing one, which is neither.
\<close>

definition has_timestamp :: "txn \<Rightarrow> bool" where
  "has_timestamp r = (case InvoiceDate r of Stamp t \<Rightarrow> True | _ \<Rightarrow> False)"

definition unparsable :: "txn \<Rightarrow> bool" where
  "unparsable r = (case InvoiceDate r of Unparsable s \<Rightarrow> True | _ \<Rightarrow> False)"

text \<open>The cells of the two columns that \<open>quarterly_revenue\<close> computes, row by row.\<close>

definition quarter_of :: "txn \<Rightarrow> period option" where
  "quarter_of r = (case InvoiceDate r of Stamp t \<Rightarrow> Some (to_period_Q t) | _ \<Rightarrow> None)"

definition line_total :: "float64_ops \<Rightarrow> txn \<Rightarrow> rat option" where
  "line_total ops r = mul_na ops (Quantity r) (UnitPrice r)"

definition line_totals :: "float64_ops \<Rightarrow> frame \<Rightarrow> rat option list" where
  "line_totals ops df = map (line_total ops) (rows df)"

text \<open>
  The quarters of a table, the rows of one quarter, and the revenue of one quarter as the
  code adds it up: the float64 sum of the present line totals of the quarter's rows, in row
  order.
\<close>

definition quarters :: "frame \<Rightarrow> period set" where
  "quarters df = {k. Some k \<in> set (map quarter_of (rows df))}"

definition quarter_rows :: "frame \<Rightarrow> period \<Rightarrow> txn list" where
  "quarter_rows df k = filter (\<lambda>r. quarter_of r = Some k) (rows df)"

definition quarter_total :: "float64_ops \<Rightarrow> frame \<Rightarrow> period \<Rightarrow> rat" where
  "quarter_total ops df k = fsum ops (present (map (line_total ops) (quarter_rows df k)))"

text \<open>
  A call of one of the four aggregators, and the caller's table as that call leaves it.
  \<open>loyalty_customers\<close>, \<open>high_demand_products\<close> and \<open>purchase_patterns\<close> only read \<^verbatim>\<open>df\<close>:
  \<^verbatim>\<open>groupby\<close>, \<^verbatim>\<open>size\<close>, \<^verbatim>\<open>sum\<close>, \<^verbatim>\<open>agg\<close>, \<^verbatim>\<open>sort_values\<close>, \<^verbatim>\<open>head\<close> and \<^verbatim>\<open>reset_index\<close> return new
  objects, and these functions assign to nothing that belongs to \<^verbatim>\<open>df\<close>.
\<close>

datatype aggregator =
  LoyaltyCustomers int | QuarterlyRevenue | HighDemandProducts int | PurchasePatterns

definition table_after :: "float64_ops \<Rightarrow> aggregator \<Rightarrow> frame \<Rightarrow> frame" where
  "table_after ops a df =
     (case a of QuarterlyRevenue \<Rightarrow> snd (quarterly_revenue ops df) | _ \<Rightarrow> df)"

section \<open>Example tables\<close>

text \<open>A row with every cell present, and a table that has only the five input columns.\<close>

definition row :: "int \<Rightarrow> int \<Rightarrow> rat \<Rightarrow> string \<Rightarrow> datecell \<Rightarrow> txn" where
  "row c q p d t =
     \<lparr>CustomerID = Some c, Description = Some d, Quantity = Some q, UnitPrice = Some p,
      InvoiceDate = t\<rparr>"

definition table :: "txn list \<Rightarrow> frame" where
  "table rs = \<lparr>rows = rs, Total = None, Quarter = None\<rparr>"

text \<open>The cleaned table of the specification's end-to-end example.\<close>

definition example_cleaned :: frame where
  "example_cleaned = table
     [row 1 5 2 ''A'' (Stamp (Timestamp 2011 1 15)),
      row 1 3 2 ''A'' (Stamp (Timestamp 2011 2 10)),
      row 2 1 10 ''B'' (Stamp (Timestamp 2011 4 5))]"

text \<open>A raw table: the second row has no customer, the third a zero quantity, the fourth a
  negative price, the fifth no quantity.\<close>

definition example_raw :: frame where
  "example_raw = table
     [row 1 5 2 ''A'' (Stamp (Timestamp 2011 1 15)),
      (row 1 4 2 ''A'' (Stamp (Timestamp 2011 1 16)))\<lparr>CustomerID := None\<rparr>,
      row 1 0 2 ''A'' (Stamp (Timestamp 2011 1 17)),
      row 2 1 (- 10) ''B'' (Stamp (Timestamp 2011 4 5)),
      (row 2 1 10 ''B'' (Stamp (Timestamp 2011 4 6)))\<lparr>Quantity := None\<rparr>,
      row 2 1 10 ''B'' (Stamp (Timestamp 2011 4 7))]"

text \<open>Two products with the same summed quantity, in the two possible row orders.\<close>

definition tied_BA :: frame where
  "tied_BA = table
     [row 1 1 2 ''B'' (Stamp (Timestamp 2011 1 15)),
      row 2 1 3 ''A'' (Stamp (Timestamp 2011 2 10))]"

definition tied_AB :: frame where
  "tied_AB = table
     [row 2 1 3 ''A'' (Stamp (Timestamp 2011 2 10)),
      row 1 1 2 ''B'' (Stamp (Timestamp 2011 1 15))]"

text \<open>Cleaned tables whose second row has a timestamp that cannot be parsed, or none.\<close>

definition bad_dates :: frame where
  "bad_dates = table
     [row 1 5 2 ''A'' (Stamp (Timestamp 2011 1 15)),
      row 2 1 10 ''B'' (Unparsable ''not a date'')]"

definition missing_date :: frame where
  "missing_date = table
     [row 1 5 2 ''A'' (Stamp (Timestamp 2011 1 15)),
      row 2 1 10 ''B'' Missing]"

text \<open>A cleaned table with one row, whose quantity is \<open>2^53 + 1\<close>.\<close>

definition big_quantity :: frame where
  "big_quantity = table [row 1 9007199254740993 2 ''A'' (Stamp (Timestamp 2011 1 15))]"

section \<open>The cleaner\<close>

lemma bool_index_map: "bool_index (map P xs) xs = filter P xs"
  by (induction xs) (simp_all add: bool_index_def)

lemma bool_index_Nil [simp]: "bool_index [] xs = []" "bool_index m [] = []"
  by (simp_all add: bool_index_def)

lemma bool_index_Cons [simp]:
  "bool_index (b # m) (x # xs) = (if b then x # bool_index m xs else bool_index m xs)"
  by (simp add: bool_index_def)

lemma length_bool_index: "length (bool_index m xs) \<le> length (filter id m)"
proof (induction m arbitrary: xs)
  case Nil
  show ?case by simp
next
  case (Cons b m)
  show ?case
  proof (cases xs)
    case Nil
    then show ?thesis by simp
  next
    case (Cons y ys)
    with Cons.IH [of ys] show ?thesis by simp
  qed
qed

lemma bool_index_all_True: "length xs \<le> n \<Longrightarrow> bool_index (replicate n True) xs = xs"
proof (induction xs arbitrary: n)
  case Nil
  show ?case by simp
next
  case (Cons x xs)
  then obtain k where "n = Suc k" by (cases n) auto
  with Cons show ?case by simp
qed

lemma rows_dropna: "rows (dropna f df) = filter (\<lambda>r. f r \<noteq> None) (rows df)"
proof -
  have "notna (column f df) = map (\<lambda>r. f r \<noteq> None) (rows df)"
    by (simp add: notna_def column_def)
  then show ?thesis
    by (simp add: dropna_def loc_def bool_index_map)
qed

lemma positive_mask:
  "mask_and (gt (map Quantity xs) 0) (gt (map UnitPrice xs) 0)
     = map (\<lambda>r. (case Quantity r of None \<Rightarrow> False | Some q \<Rightarrow> 0 < q)
               \<and> (case UnitPrice r of None \<Rightarrow> False | Some p \<Rightarrow> 0 < p)) xs"
  by (induction xs) (simp_all add: mask_and_def gt_def)

lemma rows_filter_data: "rows (filter_data df) = filter clean_row (rows df)"
proof -
  let ?pos = "\<lambda>r. (case Quantity r of None \<Rightarrow> False | Some q \<Rightarrow> 0 < q)
               \<and> (case UnitPrice r of None \<Rightarrow> False | Some p \<Rightarrow> 0 < p)"
  let ?df1 = "dropna CustomerID df"
  have "rows (filter_data df) = filter ?pos (rows ?df1)"
    by (simp add: filter_data_def Let_def loc_def column_def positive_mask bool_index_map)
  also have "\<dots> = filter ?pos (filter (\<lambda>r. CustomerID r \<noteq> None) (rows df))"
    by (simp only: rows_dropna)
  also have "\<dots> = filter clean_row (rows df)"
    unfolding filter_filter by (rule filter_cong [OF refl]) (auto simp: clean_row_def)
  finally show ?thesis .
qed

lemma length_filter_id_map: "length (filter id (map P xs)) = length (filter P xs)"
  by (induction xs) simp_all

lemma length_bool_index_column:
  "length (bool_index (map P xs) c) \<le> length (bool_index (map P xs) xs)"
  using length_bool_index [of "map P xs" c]
  by (simp add: bool_index_map length_filter_id_map)

lemma fits_loc: "fits (loc (map P (rows df)) df)"
  by (simp add: fits_def loc_def length_bool_index_column split: option.splits)

lemma map_all_True: "list_all P xs \<Longrightarrow> map P xs = replicate (length xs) True"
  by (induction xs) simp_all

lemma loc_all:
  assumes "fits df" and "list_all P (rows df)"
  shows "loc (map P (rows df)) df = df"
proof -
  have m: "map P (rows df) = replicate (length (rows df)) True"
    using assms(2) by (rule map_all_True)
  have r: "bool_index (map P (rows df)) (rows df) = rows df"
    by (simp add: m bool_index_all_True)
  have t: "map_option (bool_index (map P (rows df))) (Total df) = Total df"
    using assms(1) by (cases "Total df") (simp_all add: fits_def m bool_index_all_True)
  have q: "map_option (bool_index (map P (rows df))) (Quarter df) = Quarter df"
    using assms(1) by (cases "Quarter df") (simp_all add: fits_def m bool_index_all_True)
  show ?thesis
    by (simp add: loc_def r t q)
qed

lemma filter_data_loc:
  "filter_data df =
     loc (map (\<lambda>r. (case Quantity r of None \<Rightarrow> False | Some q \<Rightarrow> 0 < q)
                  \<and> (case UnitPrice r of None \<Rightarrow> False | Some p \<Rightarrow> 0 < p))
            (rows (dropna CustomerID df)))
       (dropna CustomerID df)"
  by (simp add: filter_data_def Let_def column_def positive_mask)

lemma dropna_loc: "dropna f df = loc (map (\<lambda>r. f r \<noteq> None) (rows df)) df"
  by (simp add: dropna_def notna_def column_def comp_def)

lemma fits_filter_data: "fits (filter_data df)"
  unfolding filter_data_loc by (rule fits_loc)

lemma clean_filter_data: "list_all clean_row (rows (filter_data df))"
  by (simp add: rows_filter_data list_all_iff)

lemma filter_data_fixed:
  assumes "fits df" and "list_all clean_row (rows df)"
  shows "filter_data df = df"
proof -
  have "list_all (\<lambda>r. CustomerID r \<noteq> None) (rows df)"
    using assms(2) by (simp add: list_all_iff clean_row_def)
  then have d: "dropna CustomerID df = df"
    unfolding dropna_loc using assms(1) by (rule loc_all [rotated])
  have "list_all (\<lambda>r. (case Quantity r of None \<Rightarrow> False | Some q \<Rightarrow> 0 < q)
                  \<and> (case UnitPrice r of None \<Rightarrow> False | Some p \<Rightarrow> 0 < p)) (rows df)"
    using assms(2) by (simp add: list_all_iff clean_row_def)
  then show ?thesis
    unfolding filter_data_loc d using assms(1) by (rule loc_all [rotated])
qed

text \<open>
  Claim C4. The rows of the table that \<open>filter_data\<close> returns are exactly the rows of its input
  that have a present \<^verbatim>\<open>CustomerID\<close>, a \<^verbatim>\<open>Quantity\<close> above 0 and a \<^verbatim>\<open>UnitPrice\<close> above 0, in
  the order in which the input has them.
\<close>

theorem filter_data_keeps_clean_rows:
  "rows (filter_data df) =
     filter (\<lambda>r. CustomerID r \<noteq> None
                \<and> (\<exists>q. Quantity r = Some q \<and> 0 < q)
                \<and> (\<exists>p. UnitPrice r = Some p \<and> 0 < p)) (rows df)"
proof -
  have "clean_row = (\<lambda>r. CustomerID r \<noteq> None
                \<and> (\<exists>q. Quantity r = Some q \<and> 0 < q)
                \<and> (\<exists>p. UnitPrice r = Some p \<and> 0 < p))"
    by (auto simp: clean_row_def fun_eq_iff split: option.splits)
  then show ?thesis
    using rows_filter_data [of df] by simp
qed

text \<open>
  Claim C5. The cleaner is idempotent: cleaning the table that \<open>filter_data\<close> returned gives
  that same table again, rows and columns.
\<close>

theorem filter_data_idempotent: "filter_data (filter_data df) = filter_data df"
  by (rule filter_data_fixed [OF fits_filter_data clean_filter_data])

lemma filter_data_example:
  "filter_data example_raw = table
     [row 1 5 2 ''A'' (Stamp (Timestamp 2011 1 15)),
      row 2 1 10 ''B'' (Stamp (Timestamp 2011 4 7))]"
  by code_simp

section \<open>Grouping\<close>

lemma set_present: "set (present ks) = {k. Some k \<in> set ks}"
  by (force simp: present_def image_iff)

lemma set_group_keys: "set (group_keys ks) = {k. Some k \<in> set ks}"
  by (simp add: group_keys_def set_present)

lemma distinct_group_keys: "distinct (group_keys ks)"
  by (simp add: group_keys_def)

lemma length_group_keys: "length (group_keys ks) = card {k. Some k \<in> set ks}"
  using distinct_card [OF distinct_group_keys, of ks] by (simp add: set_group_keys)

lemma group_keys_set: "set ks = set ks' \<Longrightarrow> group_keys ks = group_keys ks'"
proof -
  assume "set ks = set ks'"
  then have "set (present ks) = set (present ks')"
    by (simp add: set_present)
  then have "sorted_list_of_set (set (present ks)) = sorted_list_of_set (set (present ks'))"
    by simp
  then show ?thesis
    by (simp add: group_keys_def sorted_list_of_set_sort_remdups)
qed

lemma bool_index_map2: "bool_index (map P xs) (map f xs) = map f (filter P xs)"
  by (induction xs) simp_all

lemma group_of_rows:
  "group_of (map key xs) (map val xs) k = map val (filter (\<lambda>r. key r = Some k) xs)"
  by (simp add: group_of_def comp_def bool_index_map2)

lemma groupby_rows:
  "groupby (map key xs) (map val xs) agg =
     map (\<lambda>k. (k, agg (map val (filter (\<lambda>r. key r = Some k) xs)))) (group_keys (map key xs))"
  by (simp add: groupby_def group_of_rows)

lemma filter_fst_keyed:
  "distinct ks \<Longrightarrow>
   filter (\<lambda>x. fst x = d) (map (\<lambda>k. (k, g k)) ks) = (if d \<in> set ks then [(d, g d)] else [])"
  by (induction ks) auto

lemma products_present [code]: "products df = set (present (column Description df))"
  by (simp add: products_def set_present)

lemma customer_ids_present [code]: "customer_ids df = set (present (column CustomerID df))"
  by (simp add: customer_ids_def set_present)

section \<open>Loyal customers\<close>

lemma length_filter_count: "length (filter (\<lambda>r. f r = v) xs) = count_list (map f xs) v"
  by (induction xs) simp_all

lemma customer_purchases:
  "groupby (column CustomerID df) (rows df) (\<lambda>g. int (length g)) =
     map (\<lambda>c. (c, purchase_count df c)) (group_keys (column CustomerID df))"
  using groupby_rows [of CustomerID "rows df" id "\<lambda>g. int (length g)"]
  by (simp add: column_def purchase_count_def length_filter_count)

lemma loyalty_customers_filter:
  "loyalty_customers df n =
     filter (\<lambda>(c, k). n \<le> k)
       (map (\<lambda>c. (c, purchase_count df c)) (group_keys (column CustomerID df)))"
  by (simp add: loyalty_customers_def Let_def bool_index_map customer_purchases)

lemma purchase_count_pos: "c \<in> customer_ids df \<Longrightarrow> 0 < purchase_count df c"
  using count_list_0_iff [of "column CustomerID df" "Some c"]
  by (auto simp: customer_ids_def purchase_count_def)

text \<open>
  Claim C7. For every table and every integer threshold, \<open>loyalty_customers\<close> returns exactly
  the pairs of a customer identifier of the table and its purchase count for which the count
  is at least the threshold, one row per such customer. With a threshold of 0 or less the
  result has one row for each customer of the table. An empty table gives an empty result.
\<close>

theorem loyalty_customers_spec:
  "set (loyalty_customers df n) =
      {(c, k). c \<in> customer_ids df \<and> k = purchase_count df c \<and> n \<le> k}
   \<and> distinct (map fst (loyalty_customers df n))
   \<and> (n \<le> 0 \<longrightarrow> set (map fst (loyalty_customers df n)) = customer_ids df
                  \<and> length (loyalty_customers df n) = card (customer_ids df))
   \<and> (rows df = [] \<longrightarrow> loyalty_customers df n = [])"
proof (intro conjI impI)
  show "set (loyalty_customers df n) =
      {(c, k). c \<in> customer_ids df \<and> k = purchase_count df c \<and> n \<le> k}"
    by (auto simp: loyalty_customers_filter set_group_keys customer_ids_def)
  show "distinct (map fst (loyalty_customers df n))"
    unfolding loyalty_customers_filter
    by (rule distinct_map_filter) (simp add: comp_def distinct_group_keys)
  show "rows df = [] \<Longrightarrow> loyalty_customers df n = []"
    by (simp add: loyalty_customers_filter column_def group_keys_def present_def)
  assume n: "n \<le> 0"
  have all: "filter (\<lambda>(c, k). n \<le> k)
       (map (\<lambda>c. (c, purchase_count df c)) (group_keys (column CustomerID df)))
      = map (\<lambda>c. (c, purchase_count df c)) (group_keys (column CustomerID df))"
  proof (rule filter_True, clarsimp simp: set_group_keys)
    fix c assume "Some c \<in> set (column CustomerID df)"
    then have "0 < purchase_count df c"
      by (simp add: purchase_count_pos customer_ids_def)
    with n show "n \<le> purchase_count df c" by simp
  qed
  show "set (map fst (loyalty_customers df n)) = customer_ids df"
    by (simp add: loyalty_customers_filter all comp_def set_group_keys customer_ids_def)
  show "length (loyalty_customers df n) = card (customer_ids df)"
    by (simp add: loyalty_customers_filter all length_group_keys customer_ids_def)
qed

theorem loyalty_customers_spec_witness:
  "(0::int) \<le> 0
   \<and> loyalty_customers example_cleaned 0 = [(1, 2), (2, 1)]
   \<and> card (customer_ids example_cleaned) = 2
   \<and> rows (table []) = []
   \<and> loyalty_customers (table []) 10 = []"
proof -
  have l: "loyalty_customers example_cleaned 0 = [(1, 2), (2, 1)]"
    by code_simp
  have "length (loyalty_customers example_cleaned 0) = card (customer_ids example_cleaned)"
    using loyalty_customers_spec [of example_cleaned 0] by simp
  then have c: "card (customer_ids example_cleaned) = 2"
    by (simp add: l)
  have r: "rows (table []) = []"
    by (simp add: table_def)
  have "loyalty_customers (table []) 10 = []"
    using loyalty_customers_spec [of "table []" 10] r by simp
  with l c r show ?thesis by simp
qed

section \<open>Products in demand\<close>

lemma length_sort_values_desc: "length (sort_values_desc s) = length s"
  by (simp add: sort_values_desc_def)

lemma sorted_sort_values_desc: "sorted_wrt (\<ge>) (map snd (sort_values_desc s))"
proof -
  have "sorted (map snd (sort_key snd (rev s)))"
    by (rule sorted_sort_key)
  then show ?thesis
    by (simp add: sort_values_desc_def rev_map [symmetric] sorted_wrt_rev)
qed

lemma length_product_demand: "length (product_demand df) = card (products df)"
  by (simp add: product_demand_def length_sort_values_desc groupby_def length_group_keys
      products_def)

lemma sorted_product_demand: "sorted_wrt (\<ge>) (map snd (product_demand df))"
  by (simp add: product_demand_def sorted_sort_values_desc)

text \<open>
  Claim C8. For every table and every \<open>top_n\<close> that is not negative, \<open>high_demand_products\<close>
  returns min(\<open>top_n\<close>, number of distinct product descriptions) rows, and the summed
  quantities never increase from one row to the next. So \<open>top_n = 0\<close> gives the empty
  result, and a \<open>top_n\<close> of at least the number of products gives the whole ranking.
\<close>

theorem high_demand_products_top_n:
  assumes "0 \<le> top_n"
  shows "length (high_demand_products df top_n) = min (nat top_n) (card (products df))
       \<and> sorted_wrt (\<ge>) (map snd (high_demand_products df top_n))
       \<and> (top_n = 0 \<longrightarrow> high_demand_products df top_n = [])
       \<and> (int (card (products df)) \<le> top_n
            \<longrightarrow> high_demand_products df top_n = product_demand df)"
proof (intro conjI)
  have h: "high_demand_products df top_n = take (nat top_n) (product_demand df)"
    using assms by (simp add: high_demand_products_def head_def)
  show "length (high_demand_products df top_n) = min (nat top_n) (card (products df))"
    by (simp add: h length_product_demand min.commute)
  show "sorted_wrt (\<ge>) (map snd (high_demand_products df top_n))"
    unfolding h take_map [symmetric] by (rule sorted_wrt_take) (rule sorted_product_demand)
  show "top_n = 0 \<longrightarrow> high_demand_products df top_n = []"
    using h by auto
  show "int (card (products df)) \<le> top_n \<longrightarrow> high_demand_products df top_n = product_demand df"
    by (simp add: h length_product_demand)
qed

theorem high_demand_products_top_n_witness:
  "(0::int) \<le> 1
   \<and> card (products example_cleaned) = 2
   \<and> length (high_demand_products example_cleaned 1) = 1
   \<and> high_demand_products example_cleaned 0 = []
   \<and> high_demand_products example_cleaned 7 = [(''A'', 8), (''B'', 1)]"
proof -
  have c: "card (products example_cleaned) = 2"
    by code_simp
  have "length (high_demand_products example_cleaned 1) = 1"
    using high_demand_products_top_n [of 1 example_cleaned] by (simp add: c)
  moreover have "high_demand_products example_cleaned 0 = []"
    using high_demand_products_top_n [of 0 example_cleaned] by simp
  moreover have "product_demand example_cleaned = [(''A'', 8), (''B'', 1)]"
    by code_simp
  then have "high_demand_products example_cleaned 7 = [(''A'', 8), (''B'', 1)]"
    using high_demand_products_top_n [of 7 example_cleaned] by (simp add: c)
  ultimately show ?thesis
    using c by simp
qed

text \<open>
  Claim C10, as the code has it. For every table with \<open>d\<close> distinct product descriptions and
  every negative \<open>top_n\<close>, \<open>high_demand_products\<close> returns (it has no failing branch) the first
  max(\<open>d\<close> - |\<open>top_n\<close>|, 0) rows of the descending ranking. That result is empty exactly when
  |\<open>top_n\<close>| is \<open>d\<close> or more.
\<close>

theorem high_demand_products_negative:
  assumes "top_n < 0"
  shows "high_demand_products df top_n =
           take (nat (max (int (card (products df)) - \<bar>top_n\<bar>) 0)) (product_demand df)
       \<and> length (high_demand_products df top_n)
           = nat (max (int (card (products df)) - \<bar>top_n\<bar>) 0)
       \<and> (high_demand_products df top_n \<noteq> [] \<longleftrightarrow> \<bar>top_n\<bar> < int (card (products df)))"
proof (intro conjI)
  have n: "length (product_demand df) - nat (- top_n)
             = nat (max (int (card (products df)) - \<bar>top_n\<bar>) 0)"
    using assms by (simp add: length_product_demand)
  show h: "high_demand_products df top_n =
           take (nat (max (int (card (products df)) - \<bar>top_n\<bar>) 0)) (product_demand df)"
    using assms by (simp add: high_demand_products_def head_def n)
  show l: "length (high_demand_products df top_n)
             = nat (max (int (card (products df)) - \<bar>top_n\<bar>) 0)"
    unfolding h by (simp add: length_product_demand)
  show "high_demand_products df top_n \<noteq> [] \<longleftrightarrow> \<bar>top_n\<bar> < int (card (products df))"
    using l by (simp only: length_greater_0_conv [symmetric]) linarith
qed

theorem high_demand_products_negative_witness:
  "(- 1::int) < 0
   \<and> card (products example_cleaned) = 2
   \<and> high_demand_products example_cleaned (- 1) = [(''A'', 8)]"
proof -
  have c: "card (products example_cleaned) = 2"
    by code_simp
  have p: "product_demand example_cleaned = [(''A'', 8), (''B'', 1)]"
    by code_simp
  have "high_demand_products example_cleaned (- 1) = [(''A'', 8)]"
    using high_demand_products_negative [of "- 1" example_cleaned] by (simp add: c p)
  with c show ?thesis by simp
qed

text \<open>
  Claim C10 as stated fails: the cleaned example table has two products, and with
  \<open>top_n = -2\<close> the result is empty.
\<close>

theorem high_demand_products_negative_counterexample:
  "cleaned example_cleaned
   \<and> card (products example_cleaned) = 2
   \<and> (- 2::int) < 0
   \<and> high_demand_products example_cleaned (- 2) = []"
  by code_simp

lemma sum_skipna_mset:
  fixes xs ys :: "int option list"
  assumes "mset xs = mset ys"
  shows "sum_skipna xs = sum_skipna ys"
proof -
  from assms have "mset (present xs) = mset (present ys)"
    by (simp add: present_def)
  then have "sum_mset (mset (present xs)) = sum_mset (mset (present ys))"
    by simp
  then show ?thesis
    by (simp add: sum_skipna_def sum_mset_sum_list)
qed

lemma product_demand_mset:
  assumes "mset (rows df1) = mset (rows df2)"
  shows "product_demand df1 = product_demand df2"
proof -
  have "set (rows df1) = set (rows df2)"
    using assms by (rule mset_eq_setD)
  then have k: "group_keys (column Description df1) = group_keys (column Description df2)"
    by (intro group_keys_set) (simp add: column_def)
  have g: "sum_skipna (map Quantity (filter (\<lambda>r. Description r = Some d) (rows df1)))
         = sum_skipna (map Quantity (filter (\<lambda>r. Description r = Some d) (rows df2)))" for d
    by (rule sum_skipna_mset) (simp add: assms)
  have "groupby (column Description df1) (column Quantity df1) sum_skipna
      = groupby (column Description df2) (column Quantity df2) sum_skipna"
    by (simp add: column_def groupby_rows k [unfolded column_def] g)
  then show ?thesis
    by (simp add: product_demand_def)
qed

text \<open>
  Claim C2, as the code has it. The order of the rows of the table plays no part in the
  result of \<open>high_demand_products\<close>: two tables with the same rows in different orders give
  the same result, for every \<open>top_n\<close>. \<^verbatim>\<open>groupby\<close> has put the products in ascending order of
  their descriptions before the sort, so the place where a description first appears is
  lost; what orders tied products, and decides which of them passes the cut, is the sort of
  that grouped series.
\<close>

theorem high_demand_products_row_order:
  assumes "mset (rows df1) = mset (rows df2)"
  shows "high_demand_products df1 top_n = high_demand_products df2 top_n"
  by (simp add: high_demand_products_def product_demand_mset [OF assms])

theorem high_demand_products_row_order_witness:
  "mset (rows tied_BA) = mset (rows tied_AB)
   \<and> rows tied_BA \<noteq> rows tied_AB
   \<and> high_demand_products tied_BA 1 = high_demand_products tied_AB 1"
proof -
  have m: "mset (rows tied_BA) = mset (rows tied_AB)"
    by (simp add: tied_BA_def tied_AB_def table_def)
  have d: "rows tied_BA \<noteq> rows tied_AB"
    by code_simp
  from m have "high_demand_products tied_BA 1 = high_demand_products tied_AB 1"
    by (rule high_demand_products_row_order)
  with m d show ?thesis by simp
qed

text \<open>
  Claim C2 as stated fails. In \<open>tied_BA\<close> the product B appears first and in \<open>tied_AB\<close> the
  product A does; both products have the summed quantity 1. With \<open>top_n = 1\<close> the claim asks
  for B on the first table and for A on the second, and the code returns A on both.
\<close>

theorem high_demand_products_tie_counterexample:
  "cleaned tied_BA \<and> cleaned tied_AB
   \<and> map Description (rows tied_BA) = [Some ''B'', Some ''A'']
   \<and> map Description (rows tied_AB) = [Some ''A'', Some ''B'']
   \<and> high_demand_products tied_BA 1 = [(''A'', 1)]
   \<and> high_demand_products tied_AB 1 = [(''A'', 1)]"
  by code_simp

section \<open>Purchase patterns\<close>

lemma float64_of_int_small: "\<bar>q\<bar> \<le> 2 ^ 53 \<Longrightarrow> float64_of_int q = q"
  by (simp add: float64_of_int_def)

lemma purchase_patterns_rows:
  "purchase_patterns ops df =
     map (\<lambda>k. (k, mean_skipna ops (map (map_option (of_int \<circ> float64_of_int) \<circ> Quantity)
                                   (filter (\<lambda>r. Description r = Some k) (rows df))),
                  mean_skipna ops (map UnitPrice
                                   (filter (\<lambda>r. Description r = Some k) (rows df)))))
       (group_keys (column Description df))"
  using groupby_rows [of Description "rows df" id]
  by (simp add: purchase_patterns_def column_def)

text \<open>
  Claim C9, as the code has it. In a cleaned table, for a product description that occurs in
  exactly one row, \<open>purchase_patterns\<close> returns one row for that product. Given that the
  float64 mean of a single number is that number, its average unit price is the unit price
  of that row, and its average quantity is the quantity of that row converted to float64:
  the quantity itself when that is at most \<open>2^53\<close> in absolute value.
\<close>

theorem purchase_patterns_single_row:
  assumes "cleaned df"
    and "filter (\<lambda>r. Description r = Some d) (rows df) = [r]"
    and "\<And>v. fmean ops [v] = v"
  shows "\<exists>q p. Quantity r = Some q \<and> UnitPrice r = Some p
            \<and> filter (\<lambda>x. fst x = d) (purchase_patterns ops df)
                = [(d, Some (of_int (float64_of_int q)), Some p)]
            \<and> (\<bar>q\<bar> \<le> 2 ^ 53 \<longrightarrow> float64_of_int q = q)"
proof -
  have "r \<in> set (filter (\<lambda>r. Description r = Some d) (rows df))"
    by (simp add: assms(2))
  then have r: "r \<in> set (rows df)" and d: "Description r = Some d"
    by simp_all
  from r assms(1) have "clean_row r"
    by (simp add: cleaned_def list_all_iff)
  then obtain q p where q: "Quantity r = Some q" and p: "UnitPrice r = Some p"
    by (auto simp: clean_row_def split: option.splits)
  have k: "d \<in> set (group_keys (column Description df))"
    using r d by (force simp: set_group_keys column_def)
  have m: "mean_skipna ops [Some v] = Some v" for v
    by (simp add: mean_skipna_def present_def assms(3))
  have "filter (\<lambda>x. fst x = d) (purchase_patterns ops df)
          = [(d, Some (of_int (float64_of_int q)), Some p)]"
    by (simp add: purchase_patterns_rows filter_fst_keyed distinct_group_keys k assms(2) q p m)
  with q p show ?thesis
    by (auto simp: float64_of_int_small)
qed

theorem purchase_patterns_single_row_witness:
  "cleaned example_cleaned
   \<and> filter (\<lambda>r. Description r = Some ''B'') (rows example_cleaned)
       = [row 2 1 10 ''B'' (Stamp (Timestamp 2011 4 5))]
   \<and> (\<forall>v. fmean exact_ops [v] = v)
   \<and> \<bar>1::int\<bar> \<le> 2 ^ 53
   \<and> filter (\<lambda>x. fst x = ''B'') (purchase_patterns exact_ops example_cleaned)
       = [(''B'', Some 1, Some 10)]"
proof -
  have c: "cleaned example_cleaned"
    by code_simp
  have f: "filter (\<lambda>r. Description r = Some ''B'') (rows example_cleaned)
             = [row 2 1 10 ''B'' (Stamp (Timestamp 2011 4 5))]"
    by code_simp
  have e: "fmean exact_ops [v] = v" for v
    by (simp add: exact_ops_def)
  have "filter (\<lambda>x. fst x = ''B'') (purchase_patterns exact_ops example_cleaned)
          = [(''B'', Some 1, Some 10)]"
    using purchase_patterns_single_row [OF c f e] by (auto simp: row_def)
  with c f e show ?thesis by simp
qed

text \<open>
  Claim C9 as stated fails. The cleaned table \<open>big_quantity\<close> has one row, of product A, with
  the quantity \<open>2^53 + 1\<close> = 9007199254740993, which no float64 number equals. The average
  quantity that \<open>purchase_patterns\<close> returns for A is 9007199254740992.
\<close>

theorem purchase_patterns_single_row_counterexample:
  "cleaned big_quantity
   \<and> map Quantity (filter (\<lambda>r. Description r = Some ''A'') (rows big_quantity))
       = [Some 9007199254740993]
   \<and> purchase_patterns exact_ops big_quantity = [(''A'', Some 9007199254740992, Some 2)]
   \<and> (9007199254740992::rat) \<noteq> of_int 9007199254740993"
  by code_simp

section \<open>Quarterly revenue\<close>

lemma to_datetime_unparsable:
  "list_ex (\<lambda>c. case c of Unparsable s \<Rightarrow> True | _ \<Rightarrow> False) cs
     \<Longrightarrow> to_datetime cs = Inl DateParseError"
  by (induction cs rule: to_datetime.induct) simp_all

lemma to_datetime_converts:
  "\<not> list_ex (\<lambda>c. case c of Unparsable s \<Rightarrow> True | _ \<Rightarrow> False) cs \<Longrightarrow>
   to_datetime cs = Inr (map (\<lambda>c. case c of Stamp t \<Rightarrow> Some t | _ \<Rightarrow> None) cs)"
  by (induction cs rule: to_datetime.induct) simp_all

lemma list_ex_unparsable:
  "list_ex (\<lambda>c. case c of Unparsable s \<Rightarrow> True | _ \<Rightarrow> False) (column InvoiceDate df)
     = list_ex unparsable (rows df)"
  by (simp add: column_def list_ex_iff unparsable_def)

lemma column_Total_update [simp]: "column f (df\<lparr>Total := t\<rparr>) = column f df"
  by (simp add: column_def)

lemma totals_eq:
  "map2 (mul_na ops) (column Quantity df) (column UnitPrice df) = line_totals ops df"
  by (simp add: column_def line_totals_def line_total_def map2_map_map)

lemma quarters_eq:
  "map (map_option to_period_Q)
     (map (\<lambda>c. case c of Stamp t \<Rightarrow> Some t | _ \<Rightarrow> None) (column InvoiceDate df))
     = map quarter_of (rows df)"
  by (auto simp: column_def quarter_of_def split: datecell.splits)

lemma quarterly_revenue_fails:
  assumes "list_ex unparsable (rows df)"
  shows "quarterly_revenue ops df
           = (Inl DateParseError, df\<lparr>Total := Some (line_totals ops df)\<rparr>)"
proof -
  have "to_datetime (column InvoiceDate df) = Inl DateParseError"
    using assms by (simp add: to_datetime_unparsable list_ex_unparsable)
  then show ?thesis
    by (simp add: quarterly_revenue_def Let_def totals_eq)
qed

lemma quarterly_revenue_succeeds:
  assumes "\<not> list_ex unparsable (rows df)"
  shows "quarterly_revenue ops df =
           (Inr (groupby (map quarter_of (rows df)) (line_totals ops df) (sum_float ops)),
            df\<lparr>Total := Some (line_totals ops df),
               Quarter := Some (map quarter_of (rows df))\<rparr>)"
proof -
  have "to_datetime (column InvoiceDate df) =
          Inr (map (\<lambda>c. case c of Stamp t \<Rightarrow> Some t | _ \<Rightarrow> None) (column InvoiceDate df))"
    using assms by (simp add: to_datetime_converts list_ex_unparsable)
  then show ?thesis
    by (simp add: quarterly_revenue_def Let_def totals_eq quarters_eq del: map_map)
qed

text \<open>
  Claim C3, as the code has it. For every table with at least one row whose invoice timestamp
  cannot be parsed, \<open>quarterly_revenue\<close> fails with \<open>DateParseError\<close> and returns no aggregate
  at all. The failed call has one effect on its input table: the column \<^verbatim>\<open>Total\<close>, assigned
  before the timestamps are converted, stays on it. The rows and the \<^verbatim>\<open>Quarter\<close> column of the
  table are as before the call.
\<close>

theorem quarterly_revenue_date_error:
  assumes "list_ex unparsable (rows df)"
  shows "quarterly_revenue ops df
           = (Inl DateParseError, df\<lparr>Total := Some (line_totals ops df)\<rparr>)"
  using assms by (rule quarterly_revenue_fails)

theorem quarterly_revenue_date_error_witness:
  "list_ex unparsable (rows bad_dates)
   \<and> quarterly_revenue exact_ops bad_dates
       = (Inl DateParseError, bad_dates\<lparr>Total := Some [Some 10, Some 10]\<rparr>)"
proof -
  have u: "list_ex unparsable (rows bad_dates)"
    by code_simp
  have t: "line_totals exact_ops bad_dates = [Some 10, Some 10]"
    by code_simp
  from u t show ?thesis
    using quarterly_revenue_date_error [OF u, of exact_ops] by simp
qed

text \<open>
  Claim C3 as stated fails: the failed call leaves an effect. \<open>bad_dates\<close> is a cleaned table
  without a \<^verbatim>\<open>Total\<close> column, its second timestamp cannot be parsed, and after the failed call
  the table has a \<^verbatim>\<open>Total\<close> column.
\<close>

theorem quarterly_revenue_date_error_counterexample:
  "cleaned bad_dates
   \<and> list_ex unparsable (rows bad_dates)
   \<and> fst (quarterly_revenue exact_ops bad_dates) = Inl DateParseError
   \<and> Total bad_dates = None
   \<and> Total (snd (quarterly_revenue exact_ops bad_dates)) = Some [Some 10, Some 10]
   \<and> snd (quarterly_revenue exact_ops bad_dates) \<noteq> bad_dates"
  by code_simp

lemma mset_filter_disj:
  assumes "\<And>x. x \<in> set xs \<Longrightarrow> \<not> (P x \<and> Q x)"
  shows "mset (filter (\<lambda>x. P x \<or> Q x) xs) = mset (filter P xs) + mset (filter Q xs)"
  using assms by (induction xs) auto

lemma mset_groups:
  assumes "distinct ks"
  shows "mset (concat (map (\<lambda>k. filter (\<lambda>r. key r = Some k) xs) ks))
           = mset (filter (\<lambda>r. key r \<in> Some ` set ks) xs)"
  using assms
proof (induction ks)
  case Nil
  show ?case by simp
next
  case (Cons k ks)
  have split: "(\<lambda>r. key r \<in> Some ` set (k # ks))
                 = (\<lambda>r. key r = Some k \<or> key r \<in> Some ` set ks)"
    by auto
  have "mset (filter (\<lambda>r. key r = Some k \<or> key r \<in> Some ` set ks) xs)
          = mset (filter (\<lambda>r. key r = Some k) xs)
            + mset (filter (\<lambda>r. key r \<in> Some ` set ks) xs)"
    using Cons.prems by (intro mset_filter_disj) auto
  with Cons show ?case
    by (simp add: split)
qed

lemma sum_list_filter_disj:
  fixes v :: "'a \<Rightarrow> 'b::comm_monoid_add"
  assumes "\<And>x. x \<in> set xs \<Longrightarrow> \<not> (P x \<and> Q x)"
  shows "sum_list (map v (filter (\<lambda>x. P x \<or> Q x) xs))
           = sum_list (map v (filter P xs)) + sum_list (map v (filter Q xs))"
  using assms by (induction xs) (auto simp: add_ac)

lemma sum_groups:
  fixes v :: "'a \<Rightarrow> 'b::comm_monoid_add"
  assumes "distinct ks"
  shows "sum_list (map (\<lambda>k. sum_list (map v (filter (\<lambda>r. key r = Some k) xs))) ks)
           = sum_list (map v (filter (\<lambda>r. key r \<in> Some ` set ks) xs))"
  using assms
proof (induction ks)
  case Nil
  show ?case by simp
next
  case (Cons k ks)
  have split: "(\<lambda>r. key r \<in> Some ` set (k # ks))
                 = (\<lambda>r. key r = Some k \<or> key r \<in> Some ` set ks)"
    by auto
  have "sum_list (map v (filter (\<lambda>r. key r = Some k \<or> key r \<in> Some ` set ks) xs))
          = sum_list (map v (filter (\<lambda>r. key r = Some k) xs))
            + sum_list (map v (filter (\<lambda>r. key r \<in> Some ` set ks) xs))"
    using Cons.prems by (intro sum_list_filter_disj) auto
  with Cons show ?case
    by (simp add: split)
qed

lemma present_map_Some: "present (map (\<lambda>x. Some (f x)) xs) = map f xs"
  by (induction xs) (simp_all add: present_def)

lemma has_timestamp_quarter: "has_timestamp r \<longleftrightarrow> quarter_of r \<noteq> None"
  by (simp add: has_timestamp_def quarter_of_def split: datecell.splits)

lemma quarter_in_keys:
  "filter (\<lambda>r. quarter_of r \<in> Some ` set (group_keys (map quarter_of xs))) xs
     = filter has_timestamp xs"
  by (rule filter_cong [OF refl]) (force simp: set_group_keys has_timestamp_quarter)

lemma revenue_by_quarter:
  "groupby (map quarter_of (rows df)) (line_totals ops df) (sum_float ops)
     = map (\<lambda>k. (k, quarter_total ops df k)) (group_keys (map quarter_of (rows df)))"
  by (simp add: line_totals_def groupby_rows sum_float_def quarter_total_def quarter_rows_def)

text \<open>
  Claim C6, as the code has it. For every table without a timestamp that cannot be parsed,
  \<open>quarterly_revenue\<close> returns one row for each quarter of the table, in ascending order,
  with the float64 sum of the line totals of that quarter's rows. Every row that has a
  timestamp is counted in exactly one quarter; a row whose timestamp is missing is counted
  in none. The returned revenues add up to the sum of quantity times unit price over the
  table when every row has a timestamp and every quarter's float64 total is the exact sum
  of its rows' line revenues, that is, when no product and no sum was rounded.
\<close>

theorem quarterly_revenue_conservation:
  assumes "\<not> list_ex unparsable (rows df)"
  shows "\<exists>qs df'.
           quarterly_revenue ops df = (Inr (map (\<lambda>k. (k, quarter_total ops df k)) qs), df')
           \<and> sorted qs \<and> distinct qs \<and> set qs = quarters df
           \<and> mset (concat (map (quarter_rows df) qs)) = mset (filter has_timestamp (rows df))
           \<and> (list_all has_timestamp (rows df)
                \<and> list_all (\<lambda>k. quarter_total ops df k
                                   = sum_list (map line_revenue (quarter_rows df k))) qs
              \<longrightarrow> sum_list (map (quarter_total ops df) qs)
                    = sum_list (map line_revenue (rows df)))"
proof -
  let ?qs = "group_keys (map quarter_of (rows df))"
  have q: "quarterly_revenue ops df =
             (Inr (map (\<lambda>k. (k, quarter_total ops df k)) ?qs),
              df\<lparr>Total := Some (line_totals ops df),
                 Quarter := Some (map quarter_of (rows df))\<rparr>)"
    using assms by (simp add: quarterly_revenue_succeeds revenue_by_quarter)
  have s: "sorted ?qs" and d: "distinct ?qs"
    by (simp_all add: group_keys_def)
  have k: "set ?qs = quarters df"
    by (simp add: set_group_keys quarters_def)
  have "mset (concat (map (\<lambda>k. filter (\<lambda>r. quarter_of r = Some k) (rows df)) ?qs))
          = mset (filter (\<lambda>r. quarter_of r \<in> Some ` set ?qs) (rows df))"
    using d by (rule mset_groups)
  then have m: "mset (concat (map (quarter_rows df) ?qs)) = mset (filter has_timestamp (rows df))"
    by (simp add: quarter_in_keys quarter_rows_def [abs_def])
  have c: "sum_list (map (quarter_total ops df) ?qs) = sum_list (map line_revenue (rows df))"
    if t: "list_all has_timestamp (rows df)"
      and e: "list_all (\<lambda>k. quarter_total ops df k
                              = sum_list (map line_revenue (quarter_rows df k))) ?qs"
  proof -
    have "map (quarter_total ops df) ?qs
            = map (\<lambda>k. sum_list (map line_revenue (quarter_rows df k))) ?qs"
    proof (rule map_cong [OF refl])
      fix k assume "k \<in> set ?qs"
      with e show "quarter_total ops df k = sum_list (map line_revenue (quarter_rows df k))"
        by (simp add: list_all_iff)
    qed
    then have "sum_list (map (quarter_total ops df) ?qs)
            = sum_list (map (\<lambda>k. sum_list (map line_revenue (quarter_rows df k))) ?qs)"
      by (rule arg_cong)
    also have "\<dots> = sum_list (map (\<lambda>k. sum_list (map line_revenue
                                  (filter (\<lambda>r. quarter_of r = Some k) (rows df)))) ?qs)"
      by (simp add: quarter_rows_def)
    also have "\<dots> = sum_list (map line_revenue
                        (filter (\<lambda>r. quarter_of r \<in> Some ` set ?qs) (rows df)))"
      using d by (rule sum_groups)
    also have "\<dots> = sum_list (map line_revenue (filter has_timestamp (rows df)))"
      by (simp only: quarter_in_keys)
    also have "filter has_timestamp (rows df) = rows df"
      using t by (intro filter_True) (simp add: list_all_iff)
    finally show ?thesis .
  qed
  from q s d k m c show ?thesis
    by blast
qed

theorem quarterly_revenue_conservation_witness:
  "\<not> list_ex unparsable (rows example_cleaned)
   \<and> list_all has_timestamp (rows example_cleaned)
   \<and> fst (quarterly_revenue exact_ops example_cleaned) = Inr [((2011, 1), 16), ((2011, 2), 10)]
   \<and> sum_list (map line_revenue (rows example_cleaned)) = 26
   \<and> (\<exists>qs. fst (quarterly_revenue exact_ops example_cleaned)
              = Inr (map (\<lambda>k. (k, quarter_total exact_ops example_cleaned k)) qs)
         \<and> sum_list (map (quarter_total exact_ops example_cleaned) qs) = 26)"
proof -
  have u: "\<not> list_ex unparsable (rows example_cleaned)"
    by code_simp
  have t: "list_all has_timestamp (rows example_cleaned)"
    by code_simp
  have r: "fst (quarterly_revenue exact_ops example_cleaned)
             = Inr [((2011, 1), 16), ((2011, 2), 10)]"
    by code_simp
  have s: "sum_list (map line_revenue (rows example_cleaned)) = 26"
    by code_simp
  have x: "line_total exact_ops r = Some (line_revenue r)" if "r \<in> set (rows example_cleaned)" for r
    using that
    by (auto simp: example_cleaned_def table_def row_def line_total_def mul_na_def
        line_revenue_def exact_ops_def float64_of_int_def)
  have e: "quarter_total exact_ops example_cleaned k
             = sum_list (map line_revenue (quarter_rows example_cleaned k))" for k
  proof -
    have "map (line_total exact_ops) (quarter_rows example_cleaned k)
            = map (\<lambda>r. Some (line_revenue r)) (quarter_rows example_cleaned k)"
      by (rule map_cong [OF refl]) (simp add: quarter_rows_def x)
    then have "present (map (line_total exact_ops) (quarter_rows example_cleaned k))
                 = map line_revenue (quarter_rows example_cleaned k)"
      by (simp only: present_map_Some)
    then have "quarter_total exact_ops example_cleaned k
                 = fsum exact_ops (map line_revenue (quarter_rows example_cleaned k))"
      by (simp only: quarter_total_def)
    then show ?thesis
      by (simp add: exact_ops_def)
  qed
  obtain qs df' where
    q: "quarterly_revenue exact_ops example_cleaned
          = (Inr (map (\<lambda>k. (k, quarter_total exact_ops example_cleaned k)) qs), df')"
    and c: "list_all has_timestamp (rows example_cleaned)
              \<and> list_all (\<lambda>k. quarter_total exact_ops example_cleaned k
                    = sum_list (map line_revenue (quarter_rows example_cleaned k))) qs
            \<longrightarrow> sum_list (map (quarter_total exact_ops example_cleaned) qs)
                  = sum_list (map line_revenue (rows example_cleaned))"
    using quarterly_revenue_conservation [OF u, of exact_ops] by blast
  have "sum_list (map (quarter_total exact_ops example_cleaned) qs) = 26"
    using c t e s by (simp add: list_all_iff)
  moreover have "fst (quarterly_revenue exact_ops example_cleaned)
                   = Inr (map (\<lambda>k. (k, quarter_total exact_ops example_cleaned k)) qs)"
    by (simp only: q fst_conv)
  ultimately have "\<exists>qs. fst (quarterly_revenue exact_ops example_cleaned)
              = Inr (map (\<lambda>k. (k, quarter_total exact_ops example_cleaned k)) qs)
         \<and> sum_list (map (quarter_total exact_ops example_cleaned) qs) = 26"
    by blast
  with u t r s show ?thesis
    by blast
qed

text \<open>
  Claim C6 as stated fails. In the cleaned table \<open>missing_date\<close> no timestamp fails to parse:
  the first row has a date and the second has no timestamp, which is converted to NaT
  without an error. \<open>quarterly_revenue\<close> returns the revenue 10 of the one quarter, and the
  sum of quantity times unit price over the table is 20.
\<close>

theorem quarterly_revenue_conservation_counterexample:
  "cleaned missing_date
   \<and> \<not> list_ex unparsable (rows missing_date)
   \<and> fst (quarterly_revenue exact_ops missing_date) = Inr [((2011, 1), 10)]
   \<and> sum_list (map line_revenue (rows missing_date)) = 20"
  by code_simp

section \<open>What the aggregators do to their input table\<close>

text \<open>
  Claim C1, as the code has it. \<open>loyalty_customers\<close>, \<open>high_demand_products\<close> and
  \<open>purchase_patterns\<close> leave their input table as it was. \<open>quarterly_revenue\<close> keeps the rows
  of its input table, with their five input cells and their order, and writes to the
  table: it sets the column \<^verbatim>\<open>Total\<close> to the line totals of the rows and, unless a timestamp
  cannot be parsed, the column \<^verbatim>\<open>Quarter\<close> to the quarters of the rows.
\<close>

theorem aggregator_frame_effect:
  "rows (table_after ops a df) = rows df
   \<and> (a \<noteq> QuarterlyRevenue \<longrightarrow> table_after ops a df = df)
   \<and> (a = QuarterlyRevenue \<longrightarrow>
        Total (table_after ops a df) = Some (line_totals ops df)
        \<and> Quarter (table_after ops a df)
            = (if list_ex unparsable (rows df) then Quarter df
               else Some (map quarter_of (rows df))))"
proof (cases "list_ex unparsable (rows df)")
  case True
  then show ?thesis
    by (cases a) (simp_all add: table_after_def quarterly_revenue_fails)
next
  case False
  then show ?thesis
    by (cases a) (simp_all add: table_after_def quarterly_revenue_succeeds)
qed

theorem aggregator_frame_effect_witness:
  "PurchasePatterns \<noteq> QuarterlyRevenue
   \<and> table_after exact_ops PurchasePatterns example_cleaned = example_cleaned
   \<and> table_after exact_ops (LoyaltyCustomers 2) example_cleaned = example_cleaned
   \<and> table_after exact_ops (HighDemandProducts 1) example_cleaned = example_cleaned
   \<and> rows (table_after exact_ops QuarterlyRevenue example_cleaned) = rows example_cleaned
   \<and> Total (table_after exact_ops QuarterlyRevenue example_cleaned)
       = Some [Some 10, Some 6, Some 10]
   \<and> Quarter (table_after exact_ops QuarterlyRevenue example_cleaned)
       = Some [Some (2011, 1), Some (2011, 1), Some (2011, 2)]"
proof -
  have t: "line_totals exact_ops example_cleaned = [Some 10, Some 6, Some 10]"
    by code_simp
  have q: "map quarter_of (rows example_cleaned) = [Some (2011, 1), Some (2011, 1), Some (2011, 2)]"
    by code_simp
  have u: "\<not> list_ex unparsable (rows example_cleaned)"
    by code_simp
  show ?thesis
    using aggregator_frame_effect [of exact_ops PurchasePatterns example_cleaned]
      aggregator_frame_effect [of exact_ops "LoyaltyCustomers 2" example_cleaned]
      aggregator_frame_effect [of exact_ops "HighDemandProducts 1" example_cleaned]
      aggregator_frame_effect [of exact_ops QuarterlyRevenue example_cleaned]
    by (simp add: t q u)
qed

text \<open>
  Claim C1 as stated fails for \<open>quarterly_revenue\<close>: the cleaned example table has neither a
  \<^verbatim>\<open>Total\<close> nor a \<^verbatim>\<open>Quarter\<close> column before the call and has both after it.
\<close>

theorem aggregator_frame_effect_counterexample:
  "cleaned example_cleaned
   \<and> Total example_cleaned = None \<and> Quarter example_cleaned = None
   \<and> Total (snd (quarterly_revenue exact_ops example_cleaned))
       = Some [Some 10, Some 6, Some 10]
   \<and> Quarter (snd (quarterly_revenue exact_ops example_cleaned))
       = Some [Some (2011, 1), Some (2011, 1), Some (2011, 2)]
   \<and> snd (quarterly_revenue exact_ops example_cleaned) \<noteq> example_cleaned"
  by code_simp

section \<open>The end-to-end example of the specification\<close>

lemma end_to_end_example:
  "loyalty_customers example_cleaned 2 = [(1, 2)]"
  "fst (quarterly_revenue exact_ops example_cleaned) = Inr [((2011, 1), 16), ((2011, 2), 10)]"
  "high_demand_products example_cleaned 1 = [(''A'', 8)]"
  "purchase_patterns exact_ops example_cleaned
     = [(''A'', Some 4, Some 2), (''B'', Some 1, Some 10)]"
  by code_simp+

text \<open>The conversion of an int64 to float64, at the first integers that it rounds.\<close>

lemma float64_of_int_examples:
  "float64_of_int 9007199254740992 = 9007199254740992"
  "float64_of_int 9007199254740993 = 9007199254740992"
  "float64_of_int 9007199254740994 = 9007199254740994"
  "float64_of_int 9007199254740995 = 9007199254740996"
  "float64_of_int (- 9007199254740993) = - 9007199254740992"
  "float64_of_int 9223372036854775807 = 9223372036854775808"
  by code_simp+

end
